theory Spec2Isabelle
  imports Main "HOL-Library.Word" "HOL-Library.Signed_Division"
begin

unbundle bit_operations_syntax

section \<open>C integers\<close>

text \<open>
  The driver computes with \<open>short\<close>, \<open>int\<close> and \<open>long\<close>. The model fixes the LP64 data
  model of a 64-bit kernel: \<open>short\<close> has 16 bits, \<open>int\<close> and \<open>unsigned int\<close> 32, \<open>long\<close>
  and \<open>ssize_t\<close> 64. Arithmetic wraps around (the kernel is built with
  \<^verbatim>\<open>-fno-strict-overflow\<close>), a conversion to a narrower type keeps the low bits (\<open>ucast\<close>),
  a conversion of a signed value to a wider type extends the sign (\<open>scast\<close>).
\<close>

type_synonym c_short = "16 word"
type_synonym c_int = "32 word"
type_synonym c_uint = "32 word"
type_synonym c_long = "64 word"
type_synonym ssize_t = "64 word"

text \<open>C's \<open>/\<close> on signed operands truncates towards zero.\<close>

definition c_div :: "'a::len word \<Rightarrow> 'a word \<Rightarrow> 'a word" where
  "c_div a b = word_of_int (sint a sdiv sint b)"

section \<open>Constants of the driver and of the kernel headers\<close>

definition GPIO_TS_NB_ENTRIES_MAX :: nat where
  "GPIO_TS_NB_ENTRIES_MAX = 2"

text \<open>\<open>PAL_LINE_LENGTH\<close> is a macro for the literal 64: it takes the type of its context.\<close>

definition PAL_LINE_LENGTH :: "'a::len word" where
  "PAL_LINE_LENGTH = 64"

text \<open>Values of the Linux headers (asm-generic) for the names the driver uses.\<close>

definition EAGAIN :: "'a::len word" where "EAGAIN = 11"
definition ENOMEM :: "'a::len word" where "ENOMEM = 12"
definition EFAULT :: "'a::len word" where "EFAULT = 14"
definition EBUSY :: "'a::len word" where "EBUSY = 16"
definition ENODEV :: "'a::len word" where "ENODEV = 19"
definition EINVAL :: "'a::len word" where "EINVAL = 22"
definition O_NONBLOCK :: c_uint where "O_NONBLOCK = 2048"
definition POLLIN :: c_uint where "POLLIN = 1"
definition POLLPRI :: c_uint where "POLLPRI = 2"
definition IRQ_NONE :: c_int where "IRQ_NONE = 0"
definition IRQ_HANDLED :: c_int where "IRQ_HANDLED = 1"

section \<open>Data\<close>

record timespec =
  tv_sec :: c_long
  tv_nsec :: c_long

text \<open>
  \<open>struct gpio_ts_devinfo\<close>. Its fields \<open>ts\<close> and \<open>usecs\<close> are never read or written by
  the driver and are left out; the wait queue of a device is named by the index of the
  device in \<open>devtable\<close>.
\<close>

record gpio_ts_devinfo =
  opencount :: c_int
  num :: c_int

text \<open>
  \<open>struct file\<close>, as far as the driver uses it. A pointer to a device info structure is
  the index of its entry in \<open>devtable\<close>; \<open>None\<close> is the null pointer.
\<close>

record struct_file =
  f_flags :: c_uint
  private_data :: "nat option"

text \<open>The static variables of the module.\<close>

record driver =
  devtable :: "gpio_ts_devinfo option list"
  irq_numbers :: "c_int list"
  module_unload :: bool
  message :: string
  lp_button :: c_short
  lastvsync :: c_long
  lastlp :: c_long
  xpos :: c_int
  ypos :: c_int
  have_data :: bool
  usecoffset :: c_long
  oddeven :: c_int

text \<open>C initialises static storage with zeros.\<close>

definition static_init :: driver where
  "static_init =
     \<lparr>devtable = [None, None], irq_numbers = [0, 0], module_unload = False, message = [],
      lp_button = 0, lastvsync = 0, lastlp = 0, xpos = 0, ypos = 0, have_data = False,
      usecoffset = 0, oddeven = 0\<rparr>"

text \<open>\<open>devtable[i]\<close>: the pointer stored for device \<open>i\<close>, null when none is.\<close>

definition devtable_at :: "driver \<Rightarrow> nat \<Rightarrow> gpio_ts_devinfo option" where
  "devtable_at s i = (if i < length (devtable s) then devtable s ! i else None)"

section \<open>The interrupt handler\<close>

text \<open>
  What one run of the handler reads from outside the module: the clock
  (\<open>getnstimeofday\<close>) and the levels of the odd/even line and of the button line
  (\<open>gpio_get_value\<close>).
\<close>

record irq_inputs =
  timestamp :: timespec
  odd_even_level :: c_int
  button_level :: c_int

text \<open>\<open>timestamp.tv_sec * 1000000 + timestamp.tv_nsec / 1000\<close>\<close>

definition timestamp_usecs :: "timespec \<Rightarrow> c_long" where
  "timestamp_usecs t = tv_sec t * 1000000 + c_div (tv_nsec t) 1000"

text \<open>
  The branch of the handler for the light pen line (\<open>devinfo->num == 0\<close>). The second
  component of the result is the wait queue woken by \<open>wake_up\<close>, if any.
\<close>

definition lp_irq :: "irq_inputs \<Rightarrow> c_long \<Rightarrow> nat \<Rightarrow> driver \<Rightarrow> nat option \<times> driver" where
  "lp_irq inp usecs dev s =
     (let s = s\<lparr>oddeven := odd_even_level inp\<rparr> in
      if 128 <s usecs - lastlp s \<and> oddeven s \<noteq> 0 then
        let s = s\<lparr>lastlp := usecs\<rparr>;
            s = s\<lparr>lp_button := ucast (button_level inp)\<rparr>;
            s = s\<lparr>usecoffset := usecs - lastvsync s\<rparr>;
            s = s\<lparr>ypos := ucast (c_div (usecoffset s) PAL_LINE_LENGTH)\<rparr>;
            s = s\<lparr>xpos := ucast (usecoffset s - scast (ypos s * PAL_LINE_LENGTH))\<rparr>;
            s = s\<lparr>have_data := True\<rparr>
        in (Some dev, s)
      else (None, s))"

text \<open>The branch for the vsync line (\<open>devinfo->num == 1\<close>).\<close>

definition vsync_irq :: "c_long \<Rightarrow> driver \<Rightarrow> driver" where
  "vsync_irq usecs s = s\<lparr>lastvsync := usecs, lastlp := usecs\<rparr>"

text \<open>
  \<open>gpio_ts_handler\<close>. The argument \<open>dev\<close> names the interrupt line: \<open>request_irq\<close>
  registered the handler for line \<open>dev\<close> with the pointer \<open>devtable[dev]\<close>. The result is
  the returned value, the wait queue that was woken and the new state.
\<close>

definition gpio_ts_handler :: "irq_inputs \<Rightarrow> nat \<Rightarrow> driver \<Rightarrow> c_int \<times> nat option \<times> driver" where
  "gpio_ts_handler inp dev s =
     (if module_unload s then (- IRQ_NONE, None, s)
      else case devtable_at s dev of
        None \<Rightarrow> (- IRQ_NONE, None, s)
      | Some devinfo \<Rightarrow>
          let usecs = timestamp_usecs (timestamp inp);
              (woken, s) = (if num devinfo = 0 then lp_irq inp usecs dev s else (None, s));
              s = (if num devinfo = 1 then vsync_irq usecs s else s)
          in (IRQ_HANDLED, woken, s))"

text \<open>The handler run for a sequence of interrupts, one after the other.\<close>

fun run_irqs :: "(irq_inputs \<times> nat) list \<Rightarrow> driver \<Rightarrow> driver" where
  "run_irqs [] s = s"
| "run_irqs ((inp, dev) # es) s = run_irqs es (snd (snd (gpio_ts_handler inp dev s)))"

section \<open>The file operations\<close>

text \<open>
  \<open>gpio_ts_open\<close>; \<open>gpio_index\<close> is the minor number of the device node. The result is
  \<open>None\<close> when the function dereferences a null pointer.
\<close>

definition gpio_ts_open :: "nat \<Rightarrow> struct_file \<Rightarrow> driver \<Rightarrow> (c_int \<times> struct_file \<times> driver) option" where
  "gpio_ts_open gpio_index filp s =
     (case devtable_at s gpio_index of
        None \<Rightarrow> None
      | Some devinfo \<Rightarrow>
          if 0 <s opencount devinfo then Some (- EBUSY, filp, s)
          else
            let devinfo = devinfo\<lparr>opencount := opencount devinfo + 1\<rparr>;
                s = s\<lparr>devtable := (devtable s)[gpio_index := Some devinfo]\<rparr>;
                filp = filp\<lparr>private_data := Some gpio_index\<rparr>
            in Some (0, filp, s))"

text \<open>\<open>gpio_ts_release\<close>\<close>

definition gpio_ts_release :: "nat \<Rightarrow> struct_file \<Rightarrow> driver \<Rightarrow> (c_int \<times> struct_file \<times> driver) option" where
  "gpio_ts_release gpio_index filp s =
     (case devtable_at s gpio_index of
        None \<Rightarrow> None
      | Some devinfo \<Rightarrow>
          let devinfo = devinfo\<lparr>opencount := opencount devinfo - 1\<rparr>;
              s = s\<lparr>devtable := (devtable s)[gpio_index := Some devinfo]\<rparr>;
              filp = filp\<lparr>private_data := None\<rparr>
          in Some (0, filp, s))"

text \<open>What \<open>printf\<close>'s \<open>%i\<close> writes for an \<open>int\<close>.\<close>

fun dec_digits :: "nat \<Rightarrow> string" where
  "dec_digits n =
     (if n < 10 then [''0123456789'' ! n]
      else dec_digits (n div 10) @ [''0123456789'' ! (n mod 10)])"

declare dec_digits.simps [simp del]

definition fmt_i :: "int \<Rightarrow> string" where
  "fmt_i k = (if k < 0 then CHR ''-'' # dec_digits (nat (- k)) else dec_digits (nat k))"

text \<open>
  \<open>sprintf(message, "%i,%i,%i\n", xpos, ypos, lp_button)\<close>: the characters stored before
  the terminating zero. The \<open>short\<close> argument is promoted to \<open>int\<close>.
\<close>

definition sprintf_message :: "c_int \<Rightarrow> c_int \<Rightarrow> c_short \<Rightarrow> string" where
  "sprintf_message x y b =
     fmt_i (sint x) @ '','' @ fmt_i (sint y) @ '','' @ fmt_i (sint b) @ [CHR 0x0A]"

text \<open>
  How a call of \<open>gpio_ts_read\<close> stands: it has returned a value, with the bytes it copied
  to the caller's buffer, or it sleeps in \<open>wait_event\<close> on the wait queue of a device.
\<close>

datatype read_outcome =
  Returned ssize_t string
| Sleeping "nat option"

text \<open>
  The part of \<open>gpio_ts_read\<close> after the wait. \<open>uncopied\<close> is what \<open>copy_to_user\<close>
  returns: the number of bytes it could not copy.
\<close>

definition gpio_ts_read_copy :: "nat \<Rightarrow> driver \<Rightarrow> read_outcome \<times> driver" where
  "gpio_ts_read_copy uncopied s =
     (let s = s\<lparr>message := sprintf_message (xpos s) (ypos s) (lp_button s)\<rparr>;
          lg = length (message s)
      in if uncopied \<noteq> 0 then (Returned (- EFAULT) (take (lg - uncopied) (message s)), s)
         else (Returned (of_nat lg) (message s), s\<lparr>have_data := False\<rparr>))"

text \<open>
  \<open>gpio_ts_read\<close>, up to the point where it returns or goes to sleep. The function
  uses neither its \<open>length\<close> nor its \<open>offset\<close> argument.
\<close>

definition gpio_ts_read :: "struct_file \<Rightarrow> nat \<Rightarrow> driver \<Rightarrow> read_outcome \<times> driver" where
  "gpio_ts_read filp uncopied s =
     (if \<not> have_data s then
        if f_flags filp AND O_NONBLOCK \<noteq> 0 then (Returned (- EAGAIN) [], s)
        else (Sleeping (private_data filp), s)
      else gpio_ts_read_copy uncopied s)"

text \<open>
  A reader asleep in \<open>wait_event(devinfo->waitqueue, have_data)\<close> that is woken up
  tests the condition again: it goes on when \<open>have_data\<close> is set and sleeps on otherwise.
\<close>

definition gpio_ts_read_woken :: "nat option \<Rightarrow> nat \<Rightarrow> driver \<Rightarrow> read_outcome \<times> driver" where
  "gpio_ts_read_woken waitqueue uncopied s =
     (if have_data s then gpio_ts_read_copy uncopied s else (Sleeping waitqueue, s))"

text \<open>
  \<open>gpio_ts_poll\<close>: the returned mask and the wait queue handed to \<open>poll_wait\<close>, if the
  function gets there.
\<close>

definition gpio_ts_poll :: "struct_file \<Rightarrow> driver \<Rightarrow> c_uint \<times> nat option" where
  "gpio_ts_poll filp s =
     (if have_data s then (POLLPRI OR POLLIN, None) else (0, private_data filp))"

section \<open>Module initialisation\<close>

record module_params =
  gpio_ts_table :: "c_int list"
  gpio_ts_nb_gpios :: c_int
  gpio_lp_button :: c_int
  gpio_odd_even :: c_int

text \<open>
  The kernel functions \<open>gpio_ts_init\<close> calls, as far as the control flow depends on what
  they return.
\<close>

record kernel =
  gpio_is_valid :: "c_int \<Rightarrow> bool"
  alloc_chrdev_region :: c_int
  class_create_IS_ERR :: bool
  kzalloc_NULL :: "nat \<Rightarrow> bool"
  cdev_add :: c_int
  gpio_to_irq :: "c_int \<Rightarrow> c_int"
  request_irq :: "c_int \<Rightarrow> c_int"

text \<open>The first loop of the sanity checks, over the indices it visits.\<close>

fun gpios_valid :: "kernel \<Rightarrow> c_int list \<Rightarrow> nat list \<Rightarrow> bool" where
  "gpios_valid k tab [] = True"
| "gpios_valid k tab (i # is) =
     (if \<not> gpio_is_valid k (tab ! i) then False else gpios_valid k tab is)"

text \<open>The loop that creates the devices; \<open>Some err\<close> is an early \<open>return err\<close>.\<close>

fun create_devices :: "kernel \<Rightarrow> nat list \<Rightarrow> driver \<Rightarrow> c_int option \<times> driver" where
  "create_devices k [] s = (None, s)"
| "create_devices k (i # is) s =
     (if kzalloc_NULL k i then (Some (- ENOMEM), s)
      else create_devices k is
             (s\<lparr>devtable := (devtable s)[i := Some \<lparr>opencount = 0, num = of_nat i\<rparr>]\<rparr>))"

text \<open>
  The loop that requests the interrupts. \<open>reg\<close> collects the registrations that
  succeeded: the interrupt number and the device whose pointer the handler will get.
\<close>

fun request_irqs ::
  "kernel \<Rightarrow> c_int list \<Rightarrow> nat list \<Rightarrow> (c_int \<times> nat) list \<Rightarrow> driver
   \<Rightarrow> c_int option \<times> (c_int \<times> nat) list \<times> driver" where
  "request_irqs k tab [] reg s = (None, reg, s)"
| "request_irqs k tab (i # is) reg s =
     (let gpio = tab ! i;
          irq = gpio_to_irq k gpio;
          err = request_irq k irq
      in if err \<noteq> 0 then (Some (- ENODEV), reg, s)
         else request_irqs k tab is (reg @ [(irq, i)])
                (s\<lparr>irq_numbers := (irq_numbers s)[i := irq]\<rparr>))"

text \<open>
  \<open>gpio_ts_init\<close>: the returned value, the interrupt handlers registered and the state.
\<close>

definition gpio_ts_init :: "kernel \<Rightarrow> module_params \<Rightarrow> driver \<Rightarrow> c_int \<times> (c_int \<times> nat) list \<times> driver" where
  "gpio_ts_init k p s =
     (let s = s\<lparr>have_data := False\<rparr>;
          s = s\<lparr>devtable := replicate GPIO_TS_NB_ENTRIES_MAX None\<rparr>;
          is = [0 ..< nat (sint (gpio_ts_nb_gpios p))]
      in if gpio_ts_nb_gpios p \<noteq> 2 then (- EINVAL, [], s)
         else if \<not> gpios_valid k (gpio_ts_table p) is then (- ENODEV, [], s)
         else if \<not> gpio_is_valid k (gpio_lp_button p) then (- ENODEV, [], s)
         else if \<not> gpio_is_valid k (gpio_lp_button p) then (- ENODEV, [], s)
         else if alloc_chrdev_region k \<noteq> 0 then (alloc_chrdev_region k, [], s)
         else if class_create_IS_ERR k then (- EINVAL, [], s)
         else case create_devices k is s of
            (Some err, s) \<Rightarrow> (err, [], s)
          | (None, s) \<Rightarrow>
              if cdev_add k \<noteq> 0 then (cdev_add k, [], s)
              else (case request_irqs k (gpio_ts_table p) is [] s of
                      (Some err, reg, s) \<Rightarrow> (err, reg, s)
                    | (None, reg, s) \<Rightarrow> (0, reg, s)))"

section \<open>Vocabulary of the properties\<close>

text \<open>Device \<open>dev\<close> exists and is the light pen line, or the vsync line.\<close>

definition is_lp_line :: "driver \<Rightarrow> nat \<Rightarrow> bool" where
  "is_lp_line s dev = (case devtable_at s dev of None \<Rightarrow> False | Some d \<Rightarrow> num d = 0)"

definition is_vsync_line :: "driver \<Rightarrow> nat \<Rightarrow> bool" where
  "is_vsync_line s dev = (case devtable_at s dev of None \<Rightarrow> False | Some d \<Rightarrow> num d = 1)"

text \<open>A timestamp of \<open>t\<close> whole microseconds, and an edge at that time.\<close>

definition at_usecs :: "c_long \<Rightarrow> timespec" where
  "at_usecs t = \<lparr>tv_sec = t div 1000000, tv_nsec = (t mod 1000000) * 1000\<rparr>"

definition edge :: "c_long \<Rightarrow> c_int \<Rightarrow> c_int \<Rightarrow> irq_inputs" where
  "edge t parity button =
     \<lparr>timestamp = at_usecs t, odd_even_level = parity, button_level = button\<rparr>"

text \<open>The state a successful \<open>gpio_ts_init\<close> leaves when the module is loaded.\<close>

definition loaded :: driver where
  "loaded = static_init\<lparr>devtable := [Some \<lparr>opencount = 0, num = 0\<rparr>, Some \<lparr>opencount = 0, num = 1\<rparr>]\<rparr>"

text \<open>The test the handler makes on a light pen edge: debounce and parity.\<close>

definition qualifies :: "irq_inputs \<Rightarrow> driver \<Rightarrow> bool" where
  "qualifies inp s =
     (128 <s timestamp_usecs (timestamp inp) - lastlp s \<and> odd_even_level inp \<noteq> 0)"

text \<open>
  An interrupt is discarded: it wakes no reader and leaves the readiness flag and the
  sample as they were.
\<close>

definition discarded :: "irq_inputs \<Rightarrow> nat \<Rightarrow> driver \<Rightarrow> bool" where
  "discarded inp dev s =
     (case gpio_ts_handler inp dev s of
        (ret, woken, s') \<Rightarrow>
          woken = None \<and> have_data s' = have_data s \<and> xpos s' = xpos s \<and>
          ypos s' = ypos s \<and> lp_button s' = lp_button s)"


text \<open>No interrupt of a sequence is a light pen edge with a non-zero parity line.\<close>

fun no_lp_edge :: "driver \<Rightarrow> (irq_inputs \<times> nat) list \<Rightarrow> bool" where
  "no_lp_edge s [] = True"
| "no_lp_edge s ((inp, dev) # es) =
     ((if is_lp_line s dev then odd_even_level inp = 0 else True) \<and> no_lp_edge s es)"

text \<open>
  A kernel for the examples: \<open>gpio_is_valid\<close> as \<open>linux/gpio.h\<close> defines it, with 512
  for \<open>ARCH_NR_GPIOS\<close>; every call succeeds; the interrupt of a pin has the number of
  the pin plus 160.
\<close>

definition gpio_is_valid_512 :: "c_int \<Rightarrow> bool" where
  "gpio_is_valid_512 number = (0 \<le>s number \<and> number <s 512)"

definition pin_irq :: "c_int \<Rightarrow> c_int" where
  "pin_irq gpio = gpio + 160"

definition no_error :: "c_int \<Rightarrow> c_int" where
  "no_error irq = 0"

definition never :: "nat \<Rightarrow> bool" where
  "never i = False"

definition good_kernel :: kernel where
  "good_kernel =
     \<lparr>gpio_is_valid = gpio_is_valid_512, alloc_chrdev_region = 0, class_create_IS_ERR = False,
      kzalloc_NULL = never, cdev_add = 0, gpio_to_irq = pin_irq, request_irq = no_error\<rparr>"

text \<open>A file that no device has been opened on yet, blocking or not.\<close>

definition fresh_file :: "c_uint \<Rightarrow> struct_file" where
  "fresh_file flags = \<lparr>f_flags = flags, private_data = None\<rparr>"

text \<open>
  The number that a string of decimal digits denotes, and the integer that an optional
  minus sign followed by decimal digits denotes.
\<close>

definition dec_value :: "string \<Rightarrow> nat" where
  "dec_value ds = foldl (\<lambda>v c. 10 * v + (of_char c - 48)) 0 ds"

definition int_value :: "string \<Rightarrow> int" where
  "int_value cs =
     (case cs of
        [] \<Rightarrow> 0
      | c # ds \<Rightarrow> if c = CHR ''-'' then - int (dec_value ds) else int (dec_value cs))"

section \<open>Arithmetic of the conversions\<close>

lemma sdiv_nonneg: "0 \<le> (k::int) \<Longrightarrow> 0 < l \<Longrightarrow> k sdiv l = k div l"
  by (cases "k = 0") (simp_all add: signed_divide_int_def)

lemma ucast_down_int: "(ucast (word_of_int k :: 64 word) :: 32 word) = word_of_int k"
  by (rule ucast_down_wi) (simp add: is_down)

lemma of_int_sint_same: "(word_of_int (sint (a :: 'a::len word)) :: 'a word) = a"
  by (simp only: of_int_sint scast_id)

lemma ucast_scast_int: "(ucast (scast (w :: 32 word) :: 64 word) :: 32 word) = w"
proof -
  have "(ucast (scast w :: 64 word) :: 32 word) = ucast (word_of_int (sint w) :: 64 word)"
    by (simp only: scast_eq)
  also have "\<dots> = word_of_int (sint w)"
    by (rule ucast_down_int)
  also have "\<dots> = w"
    by (rule of_int_sint_same)
  finally show ?thesis .
qed

lemma ucast_down_sint: "(ucast (a :: 64 word) :: 32 word) = word_of_int (sint a)"
proof -
  have "(ucast a :: 32 word) = ucast (word_of_int (sint a) :: 64 word)"
    by (simp only: of_int_sint_same)
  also have "\<dots> = word_of_int (sint a)"
    by (rule ucast_down_int)
  finally show ?thesis .
qed

lemma ucast_down_diff: "(ucast (a - b :: 64 word) :: 32 word) = ucast a - ucast b"
proof -
  have "a - b = word_of_int (sint a - sint b)"
    by (simp only: of_int_diff of_int_sint_same)
  then have "(ucast (a - b) :: 32 word) = word_of_int (sint a - sint b)"
    by (simp only: ucast_down_int)
  also have "\<dots> = word_of_int (sint a) - word_of_int (sint b)"
    by (simp only: of_int_diff)
  finally show ?thesis
    by (simp only: ucast_down_sint)
qed

lemma c_div_line:
  fixes off :: "64 word"
  assumes "0 \<le> sint off"
  shows "c_div off 64 = word_of_int (sint off div 64)"
proof -
  have "sint off sdiv 64 = sint off div 64"
    using assms by (intro sdiv_nonneg) simp_all
  moreover have "sint (64 :: 64 word) = 64"
    by simp
  ultimately show ?thesis
    by (simp only: c_div_def)
qed

lemma sint_int32:
  assumes "- 2147483648 \<le> k" "k < 2147483648"
  shows "sint (word_of_int k :: 32 word) = k"
proof -
  have "sint (word_of_int k :: 32 word) = signed_take_bit 31 k"
    using sint_sbintrunc' [of k, where 'a = 32] by simp
  also have "\<dots> = k"
    using assms by (intro signed_take_bit_int_eq_self) simp_all
  finally show ?thesis .
qed

lemma ypos_exact:
  fixes off :: "64 word"
  assumes "0 \<le> sint off" "sint off < 137438953472"
  shows "sint (ucast (c_div off PAL_LINE_LENGTH) :: 32 word) = sint off div 64"
proof -
  have "0 \<le> sint off div 64" "sint off div 64 < 2147483648"
    using assms by simp_all
  then have "sint (word_of_int (sint off div 64) :: 32 word) = sint off div 64"
    by (intro sint_int32) simp_all
  then show ?thesis
    using assms(1) by (simp only: PAL_LINE_LENGTH_def c_div_line ucast_down_int)
qed

lemma xpos_exact:
  fixes off :: "64 word"
  assumes "0 \<le> sint off"
  shows "sint (ucast (off - scast ((ucast (c_div off PAL_LINE_LENGTH) :: 32 word) * PAL_LINE_LENGTH)) :: 32 word)
           = sint off mod 64"
proof -
  let ?q = "sint off div 64"
  have "(ucast (off - scast ((word_of_int ?q :: 32 word) * 64)) :: 32 word)
          = ucast off - word_of_int ?q * 64"
    by (simp only: ucast_down_diff ucast_scast_int)
  also have "\<dots> = word_of_int (sint off) - word_of_int (?q * 64)"
    by (simp only: ucast_down_sint of_int_mult of_int_numeral)
  also have "\<dots> = word_of_int (sint off - ?q * 64)"
    by (simp only: of_int_diff)
  also have "sint off - ?q * 64 = sint off mod 64"
    by (simp only: minus_div_mult_eq_mod)
  finally have x: "(ucast (off - scast ((word_of_int ?q :: 32 word) * 64)) :: 32 word)
          = word_of_int (sint off mod 64)" .
  have "0 \<le> sint off mod 64" "sint off mod 64 < 64"
    by simp_all
  then have "sint (word_of_int (sint off mod 64) :: 32 word) = sint off mod 64"
    by (intro sint_int32) simp_all
  then show ?thesis
    using assms x by (simp only: PAL_LINE_LENGTH_def c_div_line ucast_down_int)
qed

lemma sint_sub_exact:
  fixes a b :: "64 word"
  assumes "- (2 ^ 63) \<le> sint a - sint b" "sint a - sint b < 2 ^ 63"
  shows "sint (a - b) = sint a - sint b"
proof -
  have "signed_take_bit 63 (sint a - sint b) = sint a - sint b"
    using assms by (rule signed_take_bit_int_eq_self)
  moreover have "sint (a - b) = signed_take_bit 63 (sint a - sint b)"
    using sint_word_diff [of a b] by simp
  ultimately show ?thesis by (simp only:)
qed

lemma sint_sub_small:
  fixes a b :: "64 word"
  assumes "sint b \<le> sint a" "sint a - sint b < 137438953472"
  shows "sint (a - b) = sint a - sint b"
  using assms by (intro sint_sub_exact) simp_all

text \<open>The timestamp of \<open>t\<close> microseconds is read back as \<open>t\<close>.\<close>

lemma timestamp_usecs_at_usecs: "timestamp_usecs (at_usecs t) = t"
proof -
  define m where "m = t mod 1000000"
  have "m < 1000000"
    unfolding m_def by (rule word_mod_less_divisor) simp
  then have um: "uint m < 1000000"
    by (simp add: word_less_def)
  then have "uint m * uint (1000 :: 64 word) < 2 ^ LENGTH(64)"
    by simp
  then have "uint (m * 1000) = uint m * uint (1000 :: 64 word)"
    by (simp only: uint_mult_lem)
  then have u: "uint (m * 1000) = uint m * 1000"
    by simp
  have "sint (m * 1000) = signed_take_bit 63 (uint (m * 1000))"
    using sint_uint [of "m * 1000"] by simp
  also have "\<dots> = uint (m * 1000)"
  proof (rule signed_take_bit_int_eq_self)
    have "(0 :: int) \<le> uint (m * 1000)"
      by simp
    moreover have "- (2 ^ 63) \<le> (0 :: int)"
      by simp
    ultimately show "- (2 ^ 63) \<le> uint (m * 1000)"
      by (rule order_trans [rotated])
    show "uint (m * 1000) < 2 ^ 63"
      unfolding u using um by simp
  qed
  finally have s: "sint (m * 1000) = uint m * 1000"
    using u by simp
  have "uint m * 1000 sdiv 1000 = uint m * 1000 div 1000"
    using uint_nonnegative [of m] by (intro sdiv_nonneg) simp_all
  then have "c_div (m * 1000) 1000 = word_of_int (uint m)"
    by (simp add: c_div_def s)
  then have "c_div (m * 1000) 1000 = m"
    by simp
  then have "timestamp_usecs (at_usecs t) = t div 1000000 * 1000000 + t mod 1000000"
    by (simp add: timestamp_usecs_def at_usecs_def m_def)
  then show ?thesis
    by (simp only: div_mult_mod_eq)
qed

lemma edge_usecs: "timestamp_usecs (timestamp (edge t parity button)) = t"
  by (simp add: edge_def timestamp_usecs_at_usecs)

section \<open>The handler, case by case\<close>

lemmas handler_defs = gpio_ts_handler_def devtable_at_def lp_irq_def vsync_irq_def
  timestamp_usecs_def PAL_LINE_LENGTH_def IRQ_NONE_def IRQ_HANDLED_def

lemmas example_defs = loaded_def static_init_def edge_def at_usecs_def c_div_def
  is_lp_line_def is_vsync_line_def

lemma handler_lp:
  "\<not> module_unload s \<Longrightarrow> is_lp_line s dev \<Longrightarrow>
   gpio_ts_handler inp dev s = (IRQ_HANDLED, lp_irq inp (timestamp_usecs (timestamp inp)) dev s)"
  by (auto simp: gpio_ts_handler_def is_lp_line_def Let_def split: option.splits prod.splits)

lemma lp_irq_qualifies:
  "qualifies inp s \<Longrightarrow> usecs = timestamp_usecs (timestamp inp) \<Longrightarrow>
   lp_irq inp usecs dev s =
     (Some dev,
      s\<lparr>oddeven := odd_even_level inp, lastlp := usecs, lp_button := ucast (button_level inp),
        usecoffset := usecs - lastvsync s,
        ypos := ucast (c_div (usecs - lastvsync s) PAL_LINE_LENGTH),
        xpos := ucast (usecs - lastvsync s
                  - scast ((ucast (c_div (usecs - lastvsync s) PAL_LINE_LENGTH) :: c_int) * PAL_LINE_LENGTH)),
        have_data := True\<rparr>)"
  by (simp add: lp_irq_def qualifies_def Let_def)

lemma handler_devtable [simp]:
  "devtable (snd (snd (gpio_ts_handler inp dev s))) = devtable s"
  by (simp add: gpio_ts_handler_def lp_irq_def vsync_irq_def Let_def split: option.splits prod.splits)

lemma handler_module_unload [simp]:
  "module_unload (snd (snd (gpio_ts_handler inp dev s))) = module_unload s"
  by (simp add: gpio_ts_handler_def lp_irq_def vsync_irq_def Let_def split: option.splits prod.splits)

section \<open>Samples and VSync edges\<close>

lemma handler_have_data:
  "have_data (snd (snd (gpio_ts_handler inp dev s))) =
     (have_data s \<or> (\<not> module_unload s \<and> is_lp_line s dev \<and> qualifies inp s))"
  by (auto simp: gpio_ts_handler_def lp_irq_def vsync_irq_def qualifies_def is_lp_line_def Let_def
           split: option.splits prod.splits if_splits)

lemma is_lp_line_handler [simp]:
  "is_lp_line (snd (snd (gpio_ts_handler inp dev s))) d = is_lp_line s d"
  by (simp add: is_lp_line_def devtable_at_def)

lemma no_lp_edge_cong:
  "devtable s' = devtable s \<Longrightarrow> no_lp_edge s' es = no_lp_edge s es"
  by (induction es) (auto simp: is_lp_line_def devtable_at_def)

lemma run_no_lp_edge:
  "\<not> have_data s \<Longrightarrow> no_lp_edge s es \<Longrightarrow> \<not> have_data (run_irqs es s)"
proof (induction es arbitrary: s)
  case Nil
  then show ?case by simp
next
  case (Cons e es)
  obtain inp dev where e: "e = (inp, dev)" by (cases e)
  let ?s = "snd (snd (gpio_ts_handler inp dev s))"
  from Cons.prems e have "\<not> qualifies inp s \<or> \<not> is_lp_line s dev"
    by (auto simp: qualifies_def split: if_splits)
  with Cons.prems have "\<not> have_data ?s"
    by (auto simp: handler_have_data)
  moreover from Cons.prems e have "no_lp_edge ?s es"
    by (simp add: no_lp_edge_cong [of ?s s])
  ultimately show ?case
    using Cons.IH [of ?s] e by simp
qed

lemma handler_wakes:
  "\<not> module_unload s \<Longrightarrow> is_lp_line s dev \<Longrightarrow>
   (fst (snd (gpio_ts_handler inp dev s)) = Some dev) = qualifies inp s"
  by (auto simp: gpio_ts_handler_def lp_irq_def qualifies_def is_lp_line_def Let_def
           split: option.splits prod.splits if_splits)

lemma vsync_lastlp:
  "\<not> module_unload s \<Longrightarrow> is_vsync_line s dev \<Longrightarrow>
   lastlp (snd (snd (gpio_ts_handler inp dev s))) = timestamp_usecs (timestamp inp) \<and>
   lastvsync (snd (snd (gpio_ts_handler inp dev s))) = timestamp_usecs (timestamp inp)"
  by (auto simp: gpio_ts_handler_def vsync_irq_def is_vsync_line_def Let_def
           split: option.splits prod.splits if_splits)

lemma lp_sets_lastlp:
  "\<not> module_unload s \<Longrightarrow> is_lp_line s dev \<Longrightarrow> qualifies inp s \<Longrightarrow>
   lastlp (snd (snd (gpio_ts_handler inp dev s))) = timestamp_usecs (timestamp inp)"
  by (simp add: handler_lp lp_irq_qualifies)

text \<open>
  Claim C1, as stated, fails: after loading, a light pen edge at 500 microseconds with the
  parity line at 1 and no vsync edge before it sets \<open>have_data\<close> and stores the
  sample x = 52, y = 7.
\<close>

theorem C1_counterexample:
  "have_data (run_irqs [(edge 500 1 0, 0)] loaded) \<and>
   sint (xpos (run_irqs [(edge 500 1 0, 0)] loaded)) = 52 \<and>
   sint (ypos (run_irqs [(edge 500 1 0, 0)] loaded)) = 7"
  by (simp add: handler_defs example_defs Let_def)

text \<open>
  Claim C1, amended: no sample is produced, and the channel stays not ready, before a
  light pen edge with a non-zero parity line has been observed; vsync edges produce no
  sample and are not needed for one. While the module is not unloading, a light pen
  edge produces a sample (and wakes the reader) exactly when the parity line is
  non-zero and its timestamp is more than 128 microseconds after the debounce
  reference \<open>lastlp\<close>, whether or not a vsync edge has been observed. \<open>lastlp\<close> is 0 after loading and is set to the timestamp of every
  vsync edge and of every qualifying light pen edge. In particular, a light pen edge
  that is the first interrupt after loading produces a sample exactly when the parity
  line is non-zero and its timestamp is more than 128 microseconds.
\<close>

theorem C1_first_sample_needs_lp_edge:
  assumes "\<not> have_data s" and "no_lp_edge s es"
  shows "\<not> have_data (run_irqs es s) \<and>
         (\<not> module_unload u \<and> is_lp_line u dev \<longrightarrow>
            (fst (snd (gpio_ts_handler inp dev u)) = Some dev)
              = (128 <s timestamp_usecs (timestamp inp) - lastlp u \<and> odd_even_level inp \<noteq> 0) \<and>
            have_data (snd (snd (gpio_ts_handler inp dev u)))
              = (have_data u \<or>
                 128 <s timestamp_usecs (timestamp inp) - lastlp u \<and> odd_even_level inp \<noteq> 0) \<and>
            (128 <s timestamp_usecs (timestamp inp) - lastlp u \<and> odd_even_level inp \<noteq> 0 \<longrightarrow>
               lastlp (snd (snd (gpio_ts_handler inp dev u))) = timestamp_usecs (timestamp inp))) \<and>
         (\<not> module_unload u \<and> is_vsync_line u dev \<longrightarrow>
            lastlp (snd (snd (gpio_ts_handler inp dev u))) = timestamp_usecs (timestamp inp)) \<and>
         lastlp loaded = 0 \<and>
         have_data (snd (snd (gpio_ts_handler inp 0 loaded)))
           = (128 <s timestamp_usecs (timestamp inp) \<and> odd_even_level inp \<noteq> 0)"
proof (intro conjI impI)
  show "\<not> have_data (run_irqs es s)"
    using assms by (rule run_no_lp_edge)
next
  assume "\<not> module_unload u \<and> is_lp_line u dev"
  then show "(fst (snd (gpio_ts_handler inp dev u)) = Some dev)
              = (128 <s timestamp_usecs (timestamp inp) - lastlp u \<and> odd_even_level inp \<noteq> 0)"
    by (simp add: handler_wakes qualifies_def)
next
  assume "\<not> module_unload u \<and> is_lp_line u dev"
  then show "have_data (snd (snd (gpio_ts_handler inp dev u)))
              = (have_data u \<or>
                 128 <s timestamp_usecs (timestamp inp) - lastlp u \<and> odd_even_level inp \<noteq> 0)"
    by (simp add: handler_have_data qualifies_def)
next
  assume "\<not> module_unload u \<and> is_lp_line u dev"
    and "128 <s timestamp_usecs (timestamp inp) - lastlp u \<and> odd_even_level inp \<noteq> 0"
  then show "lastlp (snd (snd (gpio_ts_handler inp dev u))) = timestamp_usecs (timestamp inp)"
    by (simp add: lp_sets_lastlp qualifies_def)
next
  assume "\<not> module_unload u \<and> is_vsync_line u dev"
  then show "lastlp (snd (snd (gpio_ts_handler inp dev u))) = timestamp_usecs (timestamp inp)"
    by (simp add: vsync_lastlp)
next
  show "lastlp loaded = 0"
    by (simp add: loaded_def static_init_def)
next
  show "have_data (snd (snd (gpio_ts_handler inp 0 loaded)))
           = (128 <s timestamp_usecs (timestamp inp) \<and> odd_even_level inp \<noteq> 0)"
    by (simp add: handler_have_data qualifies_def) (simp add: example_defs devtable_at_def)
qed

text \<open>
  The amended claim C1 after loading: a vsync edge and a light pen edge with the parity
  line at 0 leave the channel not ready; a light pen edge at 500 microseconds as the
  first interrupt, parity line at 1, makes it ready. After a vsync edge at 1000
  microseconds, a light pen edge at 1100 with the parity line at 1 produces no sample
  and one at 1129 does.
\<close>

theorem C1_first_sample_needs_lp_edge_witness:
  "\<not> have_data loaded \<and> no_lp_edge loaded [(edge 0 1 0, 1), (edge 500 0 0, 0)] \<and>
   \<not> have_data (run_irqs [(edge 0 1 0, 1), (edge 500 0 0, 0)] loaded) \<and>
   have_data (snd (snd (gpio_ts_handler (edge 500 1 0) 0 loaded))) \<and>
   \<not> module_unload (run_irqs [(edge 1000 0 0, 1)] loaded) \<and>
   is_lp_line (run_irqs [(edge 1000 0 0, 1)] loaded) 0 \<and>
   lastlp (run_irqs [(edge 1000 0 0, 1)] loaded) = 1000 \<and>
   \<not> have_data (snd (snd (gpio_ts_handler (edge 1100 1 1) 0 (run_irqs [(edge 1000 0 0, 1)] loaded)))) \<and>
   have_data (snd (snd (gpio_ts_handler (edge 1129 1 1) 0 (run_irqs [(edge 1000 0 0, 1)] loaded)))) \<and>
   lastlp (snd (snd (gpio_ts_handler (edge 1129 1 1) 0 (run_irqs [(edge 1000 0 0, 1)] loaded)))) = 1129 \<and>
   \<not> module_unload loaded \<and> is_vsync_line loaded 1"
proof -
  let ?u = "run_irqs [(edge 1000 0 0, 1)] loaded"
  have h1: "\<not> have_data loaded"
    by (simp add: example_defs)
  have h2: "no_lp_edge loaded [(edge 0 1 0, 1), (edge 500 0 0, 0)]"
    by (simp add: example_defs devtable_at_def)
  have h3: "128 <s timestamp_usecs (timestamp (edge 500 1 0)) \<and> odd_even_level (edge 500 1 0) \<noteq> 0"
    by (simp add: edge_usecs) (simp add: edge_def)
  have h4: "\<not> module_unload ?u \<and> is_lp_line ?u 0"
    by (simp add: example_defs devtable_at_def)
  have h5: "\<not> module_unload loaded \<and> is_vsync_line loaded 1"
    by (simp add: example_defs devtable_at_def)
  have h6: "\<not> have_data ?u"
    by (simp add: handler_defs example_defs Let_def)
  have l: "lastlp ?u = 1000"
    using h5 C1_first_sample_needs_lp_edge [OF h1 h2, of loaded 1 "edge 1000 0 0"]
    by (simp add: edge_usecs)
  have o: "odd_even_level (edge 1100 1 1) \<noteq> 0" "odd_even_level (edge 1129 1 1) \<noteq> 0"
    by (simp_all add: edge_def)
  show ?thesis
    using h1 h2 h3 h4 h5 h6 l o
      C1_first_sample_needs_lp_edge [OF h1 h2, of ?u 0 "edge 1100 1 1"]
      C1_first_sample_needs_lp_edge [OF h1 h2, of ?u 0 "edge 1129 1 1"]
      C1_first_sample_needs_lp_edge [OF h1 h2, of loaded 0 "edge 500 1 0"]
    by (simp add: edge_usecs)
qed

section \<open>The decoded position\<close>

text \<open>
  Claim C2, as stated, fails: with the vsync edge at 1600000000000000 microseconds and
  a qualifying light pen edge \<open>2 ^ 37\<close> microseconds (38 hours) later,
  \<open>(t - v) div 64\<close> is \<open>2 ^ 31\<close>, which the \<open>int\<close> variable \<open>ypos\<close> does not hold: it
  reads \<open>- (2 ^ 31)\<close>.
\<close>

theorem C2_counterexample:
  "qualifies (edge 1600137438953472 1 0) (run_irqs [(edge 1600000000000000 1 0, 1)] loaded) \<and>
   lastvsync (run_irqs [(edge 1600000000000000 1 0, 1)] loaded) = 1600000000000000 \<and>
   (1600137438953472 - 1600000000000000) div 64 = (2147483648 :: int) \<and>
   sint (ypos (run_irqs [(edge 1600000000000000 1 0, 1), (edge 1600137438953472 1 0, 0)] loaded))
     = - 2147483648"
  by (simp add: handler_defs example_defs qualifies_def Let_def)

text \<open>
  Claim C2, amended: for a qualifying light pen edge at \<open>t\<close> with \<open>v\<close> the recorded
  vsync timestamp, \<open>v \<le> t\<close> and \<open>t - v < 2 ^ 37\<close> microseconds, the sample has
  \<open>y = (t - v) div 64\<close> and \<open>x = (t - v) mod 64\<close>, so \<open>0 \<le> x < 64\<close> and \<open>0 \<le> y\<close>.
\<close>

theorem C2_sample_of_offset:
  assumes "\<not> module_unload s" and "is_lp_line s dev" and "qualifies inp s"
    and "t = timestamp_usecs (timestamp inp)" and "v = lastvsync s"
    and "sint v \<le> sint t" and "sint t - sint v < 137438953472"
    and "s' = snd (snd (gpio_ts_handler inp dev s))"
  shows "have_data s' \<and>
         sint (ypos s') = (sint t - sint v) div 64 \<and>
         sint (xpos s') = (sint t - sint v) mod 64 \<and>
         0 \<le> sint (xpos s') \<and> sint (xpos s') < 64 \<and> 0 \<le> sint (ypos s')"
proof -
  have off: "sint (t - v) = sint t - sint v"
    using assms(6,7) by (rule sint_sub_small)
  then have nonneg: "0 \<le> sint (t - v)" and small: "sint (t - v) < 137438953472"
    using assms(6,7) by simp_all
  have s': "s' = snd (lp_irq inp t dev s)"
    using assms(1,2,4,8) by (simp add: handler_lp)
  have y: "sint (ypos s') = sint (t - v) div 64"
    unfolding s' using assms(3,4,5) ypos_exact [OF nonneg small]
    by (simp add: lp_irq_qualifies)
  have x: "sint (xpos s') = sint (t - v) mod 64"
    unfolding s' using assms(3,4,5) xpos_exact [OF nonneg]
    by (simp add: lp_irq_qualifies)
  have d: "have_data s'"
    unfolding s' using assms(3,4) by (simp add: lp_irq_qualifies)
  from nonneg have "0 \<le> sint (t - v) div 64"
    by simp
  with x y d off show ?thesis
    by simp
qed

text \<open>
  The amended claim C2 at the vsync edge at 0 and the light pen edge at 1000 microseconds:
  y = 15 and x = 40.
\<close>

theorem C2_sample_of_offset_witness:
  "\<not> module_unload (run_irqs [(edge 0 0 0, 1)] loaded) \<and>
   is_lp_line (run_irqs [(edge 0 0 0, 1)] loaded) 0 \<and>
   qualifies (edge 1000 1 1) (run_irqs [(edge 0 0 0, 1)] loaded) \<and>
   sint (0 :: c_long) \<le> sint (1000 :: c_long) \<and>
   sint (1000 :: c_long) - sint (0 :: c_long) < 137438953472 \<and>
   have_data (snd (snd (gpio_ts_handler (edge 1000 1 1) 0 (run_irqs [(edge 0 0 0, 1)] loaded)))) \<and>
   sint (ypos (snd (snd (gpio_ts_handler (edge 1000 1 1) 0 (run_irqs [(edge 0 0 0, 1)] loaded))))) = 15 \<and>
   sint (xpos (snd (snd (gpio_ts_handler (edge 1000 1 1) 0 (run_irqs [(edge 0 0 0, 1)] loaded))))) = 40"
proof -
  let ?s = "run_irqs [(edge 0 0 0, 1)] loaded"
  have h1: "\<not> module_unload ?s"
    by (simp add: handler_defs example_defs Let_def)
  have h2: "is_lp_line ?s 0"
    by (simp add: handler_defs example_defs Let_def)
  have h3: "qualifies (edge 1000 1 1) ?s"
    by (simp add: handler_defs example_defs qualifies_def Let_def)
  have h4: "1000 = timestamp_usecs (timestamp (edge 1000 1 1))"
    by (simp add: example_defs timestamp_usecs_def)
  have h5: "0 = lastvsync ?s"
    by (simp add: handler_defs example_defs Let_def)
  have h6: "sint (0 :: c_long) \<le> sint (1000 :: c_long)"
    by simp
  have h7: "sint (1000 :: c_long) - sint (0 :: c_long) < 137438953472"
    by simp
  show ?thesis
    using h1 h2 h3 h6 h7 C2_sample_of_offset [OF h1 h2 h3 h4 h5 h6 h7 refl]
    by simp
qed

section \<open>Debounce and parity\<close>



lemma run_devtable [simp]: "devtable (run_irqs es s) = devtable s"
proof (induction es arbitrary: s)
  case Nil
  show ?case by simp
next
  case (Cons e es)
  then show ?case by (cases e) simp
qed

lemma run_module_unload [simp]: "module_unload (run_irqs es s) = module_unload s"
proof (induction es arbitrary: s)
  case Nil
  show ?case by simp
next
  case (Cons e es)
  then show ?case by (cases e) simp
qed



lemma vsync_is_discarded:
  "\<not> is_lp_line s dev \<Longrightarrow> discarded inp dev s"
  by (auto simp: discarded_def gpio_ts_handler_def is_lp_line_def vsync_irq_def Let_def
           split: option.splits prod.splits if_splits)



section \<open>Reading\<close>

lemmas errno_defs = EAGAIN_def EFAULT_def EBUSY_def ENODEV_def EINVAL_def ENOMEM_def

lemma read_copy_ok:
  "gpio_ts_read_copy 0 s =
     (Returned (of_nat (length (sprintf_message (xpos s) (ypos s) (lp_button s))))
               (sprintf_message (xpos s) (ypos s) (lp_button s)),
      s\<lparr>message := sprintf_message (xpos s) (ypos s) (lp_button s), have_data := False\<rparr>)"
  by (simp add: gpio_ts_read_copy_def Let_def)

lemma read_copy_fault:
  "uncopied \<noteq> 0 \<Longrightarrow>
   gpio_ts_read_copy uncopied s =
     (Returned (- EFAULT)
        (take (length (sprintf_message (xpos s) (ypos s) (lp_button s)) - uncopied)
              (sprintf_message (xpos s) (ypos s) (lp_button s))),
      s\<lparr>message := sprintf_message (xpos s) (ypos s) (lp_button s)\<rparr>)"
  by (simp add: gpio_ts_read_copy_def Let_def)

lemma read_ready:
  "have_data s \<Longrightarrow> gpio_ts_read filp uncopied s = gpio_ts_read_copy uncopied s"
  by (simp add: gpio_ts_read_def)

lemma read_not_ready:
  "\<not> have_data s \<Longrightarrow>
   gpio_ts_read filp uncopied s =
     (if f_flags filp AND O_NONBLOCK \<noteq> 0 then (Returned (- EAGAIN) [], s)
      else (Sleeping (private_data filp), s))"
  by (simp add: gpio_ts_read_def)

lemma qualifying_state:
  assumes "\<not> module_unload s" "is_lp_line s dev" "qualifies inp s"
  shows "snd (snd (gpio_ts_handler inp dev s)) =
     s\<lparr>oddeven := odd_even_level inp, lastlp := timestamp_usecs (timestamp inp),
       lp_button := ucast (button_level inp),
       usecoffset := timestamp_usecs (timestamp inp) - lastvsync s,
       ypos := ucast (c_div (timestamp_usecs (timestamp inp) - lastvsync s) PAL_LINE_LENGTH),
       xpos := ucast (timestamp_usecs (timestamp inp) - lastvsync s
                 - scast ((ucast (c_div (timestamp_usecs (timestamp inp) - lastvsync s) PAL_LINE_LENGTH) :: c_int)
                          * PAL_LINE_LENGTH)),
       have_data := True\<rparr>"
  using assms by (simp add: handler_lp lp_irq_qualifies)

text \<open>
  Claim C4: when two light pen edges qualify one after the other with no read between
  them, the variables of the sample hold what the second edge gives (offset from the
  vsync timestamp, button level). A read, blocking or not, then returns the record of
  that sample and clears \<open>have_data\<close>; a non-blocking read after it returns
  \<open>-EAGAIN\<close>. There is one set of sample variables, so at most one sample is pending.
\<close>

theorem C4_last_write_wins:
  assumes "\<not> module_unload s" and "is_lp_line s dev"
    and "qualifies inp1 s" and "s1 = snd (snd (gpio_ts_handler inp1 dev s))"
    and "qualifies inp2 s1" and "s2 = snd (snd (gpio_ts_handler inp2 dev s1))"
    and "off = timestamp_usecs (timestamp inp2) - lastvsync s"
    and "y = ucast (c_div off PAL_LINE_LENGTH)"
    and "x = ucast (off - scast (y * PAL_LINE_LENGTH))"
    and "b = ucast (button_level inp2)"
    and "f_flags nonblocking AND O_NONBLOCK \<noteq> 0"
  shows "have_data s2 \<and> xpos s2 = x \<and> ypos s2 = y \<and> lp_button s2 = b \<and>
         gpio_ts_read filp 0 s2 =
           (Returned (of_nat (length (sprintf_message x y b))) (sprintf_message x y b),
            s2\<lparr>message := sprintf_message x y b, have_data := False\<rparr>) \<and>
         gpio_ts_read nonblocking 0 (s2\<lparr>message := sprintf_message x y b, have_data := False\<rparr>) =
           (Returned (- EAGAIN) [], s2\<lparr>message := sprintf_message x y b, have_data := False\<rparr>)"
proof -
  have s1: "\<not> module_unload s1" "is_lp_line s1 dev"
    using assms(1,2,4) by simp_all
  have v: "lastvsync s1 = lastvsync s"
    using assms(1-4) by (simp add: qualifying_state)
  have s2: "have_data s2" "xpos s2 = x" "ypos s2 = y" "lp_button s2 = b"
    using s1 v assms(5-10) by (simp_all add: qualifying_state)
  show ?thesis
    using s2 assms(11) by (simp add: read_ready read_copy_ok read_not_ready)
qed

text \<open>
  Claim C4 at a vsync edge at 0 and light pen edges at 1000 and 2000 microseconds: the
  read returns the record of the second edge.
\<close>

theorem C4_last_write_wins_witness:
  "\<not> module_unload (run_irqs [(edge 0 0 0, 1)] loaded) \<and>
   is_lp_line (run_irqs [(edge 0 0 0, 1)] loaded) 0 \<and>
   qualifies (edge 1000 1 1) (run_irqs [(edge 0 0 0, 1)] loaded) \<and>
   qualifies (edge 2000 1 0) (run_irqs [(edge 0 0 0, 1), (edge 1000 1 1, 0)] loaded) \<and>
   f_flags (fresh_file O_NONBLOCK) AND O_NONBLOCK \<noteq> 0 \<and>
   gpio_ts_read (fresh_file 0) 0
       (run_irqs [(edge 0 0 0, 1), (edge 1000 1 1, 0), (edge 2000 1 0, 0)] loaded) =
     (Returned 8 (''16,31,0'' @ [CHR 0x0A]),
      (run_irqs [(edge 0 0 0, 1), (edge 1000 1 1, 0), (edge 2000 1 0, 0)] loaded)
        \<lparr>message := ''16,31,0'' @ [CHR 0x0A], have_data := False\<rparr>) \<and>
   gpio_ts_read (fresh_file O_NONBLOCK) 0
       ((run_irqs [(edge 0 0 0, 1), (edge 1000 1 1, 0), (edge 2000 1 0, 0)] loaded)
          \<lparr>message := ''16,31,0'' @ [CHR 0x0A], have_data := False\<rparr>) =
     (Returned (- EAGAIN) [],
      (run_irqs [(edge 0 0 0, 1), (edge 1000 1 1, 0), (edge 2000 1 0, 0)] loaded)
        \<lparr>message := ''16,31,0'' @ [CHR 0x0A], have_data := False\<rparr>)"
proof -
  let ?a = "run_irqs [(edge 0 0 0, 1)] loaded"
  let ?b = "snd (snd (gpio_ts_handler (edge 1000 1 1) 0 ?a))"
  let ?c = "snd (snd (gpio_ts_handler (edge 2000 1 0) 0 ?b))"
  have r1: "run_irqs [(edge 0 0 0, 1), (edge 1000 1 1, 0)] loaded = ?b"
    by simp
  have r2: "run_irqs [(edge 0 0 0, 1), (edge 1000 1 1, 0), (edge 2000 1 0, 0)] loaded = ?c"
    by simp
  have h1: "\<not> module_unload ?a"
    by (simp add: example_defs)
  have h2: "is_lp_line ?a 0"
    by (simp add: example_defs devtable_at_def)
  have h3: "qualifies (edge 1000 1 1) ?a"
    by (simp add: handler_defs example_defs qualifies_def Let_def)
  have h4: "qualifies (edge 2000 1 0) ?b"
    by (simp add: handler_defs example_defs qualifies_def Let_def)
  have h5: "f_flags (fresh_file O_NONBLOCK) AND O_NONBLOCK \<noteq> 0"
    by (simp add: fresh_file_def O_NONBLOCK_def)
  have off: "timestamp_usecs (timestamp (edge 2000 1 0)) - lastvsync ?a = 2000"
    by (simp add: handler_defs example_defs Let_def)
  have y: "(ucast (c_div (2000 :: c_long) PAL_LINE_LENGTH) :: c_int) = 31"
    by (simp add: c_div_def PAL_LINE_LENGTH_def)
  have x: "(ucast ((2000 :: c_long) - scast ((31 :: c_int) * PAL_LINE_LENGTH)) :: c_int) = 16"
    by (simp add: PAL_LINE_LENGTH_def)
  have b: "(ucast (button_level (edge 2000 1 0)) :: c_short) = 0"
    by (simp add: edge_def)
  have m: "sprintf_message 16 31 0 = ''16,31,0'' @ [CHR 0x0A]"
    by (simp add: sprintf_message_def fmt_i_def dec_digits.simps)
  from C4_last_write_wins [OF h1 h2 h3 refl h4 refl refl refl refl refl h5, of "fresh_file 0"]
  show ?thesis
    unfolding r1 r2 off y x b m using h1 h2 h3 h4 h5 by simp
qed

section \<open>The formatted record\<close>

lemma digit_char:
  assumes "d < 10"
  shows "''0123456789'' ! d \<in> set ''0123456789''"
    and "of_char (''0123456789'' ! d) = 48 + d"
    and "''0123456789'' ! d \<noteq> CHR ''-''"
proof -
  from assms have "d = 0 \<or> d = 1 \<or> d = 2 \<or> d = 3 \<or> d = 4
    \<or> d = 5 \<or> d = 6 \<or> d = 7 \<or> d = 8 \<or> d = 9"
    by arith
  then have "''0123456789'' ! d \<in> set ''0123456789'' \<and> of_char (''0123456789'' ! d) = 48 + d
      \<and> ''0123456789'' ! d \<noteq> CHR ''-''"
    by (elim disjE) simp_all
  then show "''0123456789'' ! d \<in> set ''0123456789''"
    and "of_char (''0123456789'' ! d) = 48 + d"
    and "''0123456789'' ! d \<noteq> CHR ''-''"
    by simp_all
qed

lemma dec_digits_chars: "set (dec_digits n) \<subseteq> set ''0123456789''"
proof (induction n rule: dec_digits.induct)
  case (1 n)
  show ?case
  proof (cases "n < 10")
    case True
    then show ?thesis
      using digit_char(1) [of n] by (subst dec_digits.simps) simp
  next
    case False
    have "n mod 10 < 10" by simp
    then have "''0123456789'' ! (n mod 10) \<in> set ''0123456789''"
      by (rule digit_char(1))
    with False 1 show ?thesis
      by (subst dec_digits.simps) simp
  qed
qed

lemma dec_value_snoc: "dec_value (ds @ [c]) = 10 * dec_value ds + (of_char c - 48)"
  by (simp add: dec_value_def)

lemma dec_value_digits: "dec_value (dec_digits n) = n"
proof (induction n rule: dec_digits.induct)
  case (1 n)
  show ?case
  proof (cases "n < 10")
    case True
    then show ?thesis
      using digit_char(2) [of n] by (subst dec_digits.simps) (simp add: dec_value_def)
  next
    case False
    have "n mod 10 < 10" by simp
    then have "of_char (''0123456789'' ! (n mod 10)) = 48 + n mod 10"
      by (rule digit_char(2))
    with False 1 show ?thesis
      by (subst dec_digits.simps) (simp add: dec_value_snoc)
  qed
qed

lemma dec_digits_length: "n < 10 ^ k \<Longrightarrow> 0 < k \<Longrightarrow> length (dec_digits n) \<le> k"
proof (induction n arbitrary: k rule: dec_digits.induct)
  case (1 n)
  show ?case
  proof (cases "n < 10")
    case True
    with 1(3) show ?thesis
      by (subst dec_digits.simps) simp
  next
    case False
    obtain j where k: "k = Suc j"
      using 1(3) by (cases k) simp_all
    have "j \<noteq> 0"
      using False 1(2) k by (cases j) simp_all
    moreover have "n div 10 < 10 ^ j"
      using 1(2) k by (simp add: less_mult_imp_div_less mult.commute)
    ultimately have "length (dec_digits (n div 10)) \<le> j"
      using 1(1) [of j] False by simp
    with False k show ?thesis
      by (subst dec_digits.simps) simp
  qed
qed

lemma dec_digits_first:
  "dec_digits n \<noteq> [] \<and> hd (dec_digits n) \<noteq> CHR ''-''"
proof (induction n rule: dec_digits.induct)
  case (1 n)
  show ?case
  proof (cases "n < 10")
    case True
    then show ?thesis
      using digit_char(3) [of n] by (subst (1 2) dec_digits.simps) simp
  next
    case False
    with 1 show ?thesis
      by (subst (1 2) dec_digits.simps) simp
  qed
qed

lemma fmt_i_chars: "set (fmt_i k) \<subseteq> set ''-0123456789''"
proof -
  define D where "D = set ''0123456789''"
  have d: "set (dec_digits n) \<subseteq> D" for n
    unfolding D_def by (rule dec_digits_chars)
  have "set (fmt_i k) \<subseteq> insert (CHR ''-'') D"
    using d [of "nat k"] d [of "nat (- k)"] by (cases "k < 0") (auto simp: fmt_i_def)
  moreover have "set ''-0123456789'' = insert (CHR ''-'') D"
    unfolding D_def by (rule list.set(2))
  ultimately show ?thesis
    by (simp only:)
qed

lemma int_value_fmt_i: "int_value (fmt_i k) = k"
proof (cases "k < 0")
  case True
  then show ?thesis
    by (simp add: fmt_i_def int_value_def dec_value_digits)
next
  case False
  obtain c ds where d: "dec_digits (nat k) = c # ds"
    using dec_digits_first [of "nat k"] by (cases "dec_digits (nat k)") simp_all
  then have "c \<noteq> CHR ''-''"
    using dec_digits_first [of "nat k"] by simp
  moreover have "dec_value (c # ds) = nat k"
    using dec_value_digits [of "nat k"] d by simp
  ultimately show ?thesis
    using False d by (simp add: fmt_i_def int_value_def)
qed

lemma fmt_i_length:
  assumes "- (10 ^ k) < i" "i < 10 ^ k" "0 < k"
  shows "length (fmt_i i) \<le> Suc k"
proof (cases "i < 0")
  case True
  then have "nat (- i) < 10 ^ k"
    using assms(1) by (simp add: nat_less_iff)
  then have "length (dec_digits (nat (- i))) \<le> k"
    using assms(3) by (rule dec_digits_length)
  with True show ?thesis
    by (simp add: fmt_i_def)
next
  case False
  then have "nat i < 10 ^ k"
    using assms(2) by (simp add: nat_less_iff)
  then have "length (dec_digits (nat i)) \<le> k"
    using assms(3) by (rule dec_digits_length)
  with False show ?thesis
    by (simp add: fmt_i_def)
qed

lemma sint_int_bounds:
  "- 10000000000 < sint (x :: c_int)" "sint (x :: c_int) < 10000000000"
  "- 100000 < sint (b :: c_short)" "sint (b :: c_short) < 100000"
  using sint_ge [of x] sint_lt [of x] sint_ge [of b] sint_lt [of b] by simp_all

lemma sprintf_message_length: "length (sprintf_message x y b) \<le> 31"
proof -
  have "length (fmt_i (sint x)) \<le> Suc 10"
    using sint_int_bounds(1,2) [of x] by (intro fmt_i_length) simp_all
  moreover have "length (fmt_i (sint y)) \<le> Suc 10"
    using sint_int_bounds(1,2) [of y] by (intro fmt_i_length) simp_all
  moreover have "length (fmt_i (sint b)) \<le> Suc 5"
    using sint_int_bounds(3,4) [of b] by (intro fmt_i_length) simp_all
  ultimately show ?thesis
    by (simp add: sprintf_message_def)
qed

lemma sint_of_nat_small:
  assumes "n \<le> 31"
  shows "sint (of_nat n :: 64 word) = int n"
proof -
  have "sint (word_of_int (int n) :: 64 word) = signed_take_bit 63 (int n)"
    using sint_sbintrunc' [of "int n", where 'a = 64] by simp
  also have "\<dots> = int n"
    using assms by (intro signed_take_bit_int_eq_self) simp_all
  finally show ?thesis
    by simp
qed

lemma read_copy_cases:
  "gpio_ts_read_copy uncopied s = (out, s') \<Longrightarrow>
   (uncopied = 0 \<and> out = Returned (of_nat (length (sprintf_message (xpos s) (ypos s) (lp_button s))))
                              (sprintf_message (xpos s) (ypos s) (lp_button s)))
   \<or> (\<exists>part. out = Returned (- EFAULT) part)"
  by (cases "uncopied = 0") (auto simp: read_copy_ok read_copy_fault)

lemma negative_errno: "\<not> 0 \<le>s (- EAGAIN :: 64 word)" "\<not> 0 \<le>s (- EFAULT :: 64 word)"
  by (simp_all add: errno_defs word_sle_eq)

lemma read_success:
  assumes "gpio_ts_read filp uncopied s = (Returned r buf, s')
           \<or> gpio_ts_read_woken wq uncopied s = (Returned r buf, s')"
    and "0 \<le>s r"
  shows "buf = sprintf_message (xpos s) (ypos s) (lp_button s) \<and> r = of_nat (length buf)"
proof -
  have "gpio_ts_read_copy uncopied s = (Returned r buf, s')"
    using assms negative_errno(1)
    by (auto simp: gpio_ts_read_def gpio_ts_read_woken_def split: if_splits)
  from read_copy_cases [OF this] assms(2) negative_errno(2) show ?thesis
    by auto
qed

text \<open>
  Claim C5: a read that succeeds, at once or after sleeping, hands the caller the
  characters \<open><x>,<y>,<button>\<close> and a newline for the pending sample. Each field is
  what \<open>%i\<close> prints: an optional minus sign and decimal digits that denote the value
  (so commas and the newline only delimit). The value returned is the number of these
  characters, the zero byte that ends \<open>message\<close> not counted, and they fit the buffer
  of 256 bytes. With a vsync edge at 0 and a qualifying light pen edge at 1000
  microseconds, button at 1, the record is \<open>40,15,1\<close> and a newline.
\<close>

theorem C5_record_format:
  assumes "gpio_ts_read filp uncopied s = (Returned r buf, s')
           \<or> gpio_ts_read_woken wq uncopied s = (Returned r buf, s')"
    and "0 \<le>s r"
  shows "buf = fmt_i (sint (xpos s)) @ '','' @ fmt_i (sint (ypos s)) @ '',''
                 @ fmt_i (sint (lp_button s)) @ [CHR 0x0A] \<and>
         sint r = int (length buf) \<and> length buf < 256 \<and>
         set (fmt_i (sint (xpos s))) \<union> set (fmt_i (sint (ypos s))) \<union> set (fmt_i (sint (lp_button s)))
           \<subseteq> set ''-0123456789'' \<and>
         int_value (fmt_i (sint (xpos s))) = sint (xpos s) \<and>
         int_value (fmt_i (sint (ypos s))) = sint (ypos s) \<and>
         int_value (fmt_i (sint (lp_button s))) = sint (lp_button s) \<and>
         gpio_ts_read filp 0 (run_irqs [(edge 0 0 0, 1), (edge 1000 1 1, 0)] loaded) =
           (Returned 8 (''40,15,1'' @ [CHR 0x0A]),
            (run_irqs [(edge 0 0 0, 1), (edge 1000 1 1, 0)] loaded)
               \<lparr>message := ''40,15,1'' @ [CHR 0x0A], have_data := False\<rparr>)"
proof -
  have b: "buf = sprintf_message (xpos s) (ypos s) (lp_button s)" and r: "r = of_nat (length buf)"
    using read_success [OF assms] by simp_all
  have l: "length buf \<le> 31"
    unfolding b by (rule sprintf_message_length)
  then have "sint r = int (length buf)"
    unfolding r by (rule sint_of_nat_small)
  moreover have "gpio_ts_read filp 0 (run_irqs [(edge 0 0 0, 1), (edge 1000 1 1, 0)] loaded) =
           (Returned 8 (''40,15,1'' @ [CHR 0x0A]),
            (run_irqs [(edge 0 0 0, 1), (edge 1000 1 1, 0)] loaded)
               \<lparr>message := ''40,15,1'' @ [CHR 0x0A], have_data := False\<rparr>)"
    by (simp add: handler_defs example_defs Let_def gpio_ts_read_def gpio_ts_read_copy_def
          sprintf_message_def fmt_i_def dec_digits.simps)
  ultimately show ?thesis
    using b l fmt_i_chars int_value_fmt_i by (simp add: sprintf_message_def)
qed

text \<open>
  Claim C5 at the read of that sample: 8 characters are returned.
\<close>

theorem C5_record_format_witness:
  "gpio_ts_read (fresh_file 0) 0 (run_irqs [(edge 0 0 0, 1), (edge 1000 1 1, 0)] loaded) =
     (Returned 8 (''40,15,1'' @ [CHR 0x0A]),
      (run_irqs [(edge 0 0 0, 1), (edge 1000 1 1, 0)] loaded)
         \<lparr>message := ''40,15,1'' @ [CHR 0x0A], have_data := False\<rparr>) \<and>
   0 \<le>s (8 :: ssize_t) \<and>
   sint (xpos (run_irqs [(edge 0 0 0, 1), (edge 1000 1 1, 0)] loaded)) = 40 \<and>
   sint (ypos (run_irqs [(edge 0 0 0, 1), (edge 1000 1 1, 0)] loaded)) = 15 \<and>
   sint (lp_button (run_irqs [(edge 0 0 0, 1), (edge 1000 1 1, 0)] loaded)) = 1 \<and>
   ''40,15,1'' @ [CHR 0x0A] = fmt_i 40 @ '','' @ fmt_i 15 @ '','' @ fmt_i 1 @ [CHR 0x0A] \<and>
   sint (8 :: ssize_t) = int (length (''40,15,1'' @ [CHR 0x0A]))"
proof -
  let ?s = "run_irqs [(edge 0 0 0, 1), (edge 1000 1 1, 0)] loaded"
  let ?s' = "?s\<lparr>message := ''40,15,1'' @ [CHR 0x0A], have_data := False\<rparr>"
  have g: "gpio_ts_read (fresh_file 0) 0 ?s = (Returned 8 (''40,15,1'' @ [CHR 0x0A]), ?s')"
    by (simp add: handler_defs example_defs Let_def gpio_ts_read_def gpio_ts_read_copy_def
          sprintf_message_def fmt_i_def dec_digits.simps)
  then have h1: "gpio_ts_read (fresh_file 0) 0 ?s = (Returned 8 (''40,15,1'' @ [CHR 0x0A]), ?s')
           \<or> gpio_ts_read_woken None 0 ?s = (Returned 8 (''40,15,1'' @ [CHR 0x0A]), ?s')"
    by (rule disjI1)
  have h2: "0 \<le>s (8 :: ssize_t)"
    by (simp add: word_sle_eq)
  have v: "sint (xpos ?s) = 40" "sint (ypos ?s) = 15" "sint (lp_button ?s) = 1"
    by (simp_all add: handler_defs example_defs Let_def)
  have f: "fmt_i 40 = ''40''" "fmt_i 15 = ''15''" "fmt_i 1 = ''1''"
    by (simp_all add: fmt_i_def dec_digits.simps)
  from C5_record_format [OF h1 h2] show ?thesis
    unfolding v using g h2 by (simp add: f)
qed

section \<open>Exclusive open\<close>

lemma devtable_at_update:
  "devtable_at s i = Some d \<Longrightarrow>
   devtable_at (s\<lparr>devtable := (devtable s)[i := Some d']\<rparr>) i = Some d'"
  by (simp add: devtable_at_def split: if_splits)

text \<open>
  Claim C6: \<open>gpio_ts_open\<close> on a device whose open count is positive (1 when it is
  open) returns \<open>-EBUSY\<close> and changes nothing; on a device with open count 0 it
  returns 0, sets the count to 1 and binds the file to the device;
  \<open>gpio_ts_release\<close> then sets the count back to 0, and the next \<open>gpio_ts_open\<close>
  succeeds again.
\<close>

theorem C6_exclusive_open:
  assumes "devtable_at s i = Some d"
  shows "(0 <s opencount d \<longrightarrow> gpio_ts_open i filp s = Some (- EBUSY, filp, s)) \<and>
         (opencount d = 0 \<longrightarrow>
            gpio_ts_open i filp s =
              Some (0, filp\<lparr>private_data := Some i\<rparr>,
                    s\<lparr>devtable := (devtable s)[i := Some (d\<lparr>opencount := 1\<rparr>)]\<rparr>) \<and>
            gpio_ts_release i (filp\<lparr>private_data := Some i\<rparr>)
                (s\<lparr>devtable := (devtable s)[i := Some (d\<lparr>opencount := 1\<rparr>)]\<rparr>) =
              Some (0, filp\<lparr>private_data := None\<rparr>,
                    s\<lparr>devtable := (devtable s)[i := Some (d\<lparr>opencount := 0\<rparr>)]\<rparr>) \<and>
            gpio_ts_open i again
                (s\<lparr>devtable := (devtable s)[i := Some (d\<lparr>opencount := 0\<rparr>)]\<rparr>) =
              Some (0, again\<lparr>private_data := Some i\<rparr>,
                    s\<lparr>devtable := (devtable s)[i := Some (d\<lparr>opencount := 1\<rparr>)]\<rparr>))"
proof (intro conjI impI)
  assume "0 <s opencount d"
  with assms show "gpio_ts_open i filp s = Some (- EBUSY, filp, s)"
    by (simp add: gpio_ts_open_def)
next
  assume z: "opencount d = 0"
  with assms show "gpio_ts_open i filp s =
              Some (0, filp\<lparr>private_data := Some i\<rparr>,
                    s\<lparr>devtable := (devtable s)[i := Some (d\<lparr>opencount := 1\<rparr>)]\<rparr>)"
    by (simp add: gpio_ts_open_def Let_def)
  from assms show "gpio_ts_release i (filp\<lparr>private_data := Some i\<rparr>)
                (s\<lparr>devtable := (devtable s)[i := Some (d\<lparr>opencount := 1\<rparr>)]\<rparr>) =
              Some (0, filp\<lparr>private_data := None\<rparr>,
                    s\<lparr>devtable := (devtable s)[i := Some (d\<lparr>opencount := 0\<rparr>)]\<rparr>)"
    by (simp add: gpio_ts_release_def devtable_at_update Let_def)
  from assms show "gpio_ts_open i again
                (s\<lparr>devtable := (devtable s)[i := Some (d\<lparr>opencount := 0\<rparr>)]\<rparr>) =
              Some (0, again\<lparr>private_data := Some i\<rparr>,
                    s\<lparr>devtable := (devtable s)[i := Some (d\<lparr>opencount := 1\<rparr>)]\<rparr>)"
    by (simp add: gpio_ts_open_def devtable_at_update Let_def)
qed

text \<open>
  Claim C6 on the light pen device after loading: open, open again, close, open.
\<close>

theorem C6_exclusive_open_witness:
  "devtable_at loaded 0 = Some \<lparr>opencount = 0, num = 0\<rparr> \<and>
   gpio_ts_open 0 (fresh_file 0) loaded =
     Some (0, \<lparr>f_flags = 0, private_data = Some 0\<rparr>,
           loaded\<lparr>devtable := [Some \<lparr>opencount = 1, num = 0\<rparr>, Some \<lparr>opencount = 0, num = 1\<rparr>]\<rparr>) \<and>
   devtable_at (loaded\<lparr>devtable := [Some \<lparr>opencount = 1, num = 0\<rparr>, Some \<lparr>opencount = 0, num = 1\<rparr>]\<rparr>) 0
     = Some \<lparr>opencount = 1, num = 0\<rparr> \<and>
   0 <s opencount \<lparr>opencount = 1, num = 0 :: c_int\<rparr> \<and>
   gpio_ts_open 0 (fresh_file 0)
       (loaded\<lparr>devtable := [Some \<lparr>opencount = 1, num = 0\<rparr>, Some \<lparr>opencount = 0, num = 1\<rparr>]\<rparr>) =
     Some (- EBUSY, fresh_file 0,
           loaded\<lparr>devtable := [Some \<lparr>opencount = 1, num = 0\<rparr>, Some \<lparr>opencount = 0, num = 1\<rparr>]\<rparr>) \<and>
   gpio_ts_release 0 \<lparr>f_flags = 0, private_data = Some 0\<rparr>
       (loaded\<lparr>devtable := [Some \<lparr>opencount = 1, num = 0\<rparr>, Some \<lparr>opencount = 0, num = 1\<rparr>]\<rparr>) =
     Some (0, fresh_file 0, loaded) \<and>
   gpio_ts_open 0 (fresh_file 0) loaded \<noteq> None"
proof -
  let ?d = "\<lparr>opencount = 0, num = 0 :: c_int\<rparr>"
  let ?e = "\<lparr>opencount = 1, num = 0 :: c_int\<rparr>"
  let ?t = "loaded\<lparr>devtable := [Some ?e, Some \<lparr>opencount = 0, num = 1\<rparr>]\<rparr>"
  have h1: "devtable_at loaded 0 = Some ?d"
    by (simp add: loaded_def static_init_def devtable_at_def)
  have h2: "devtable_at ?t 0 = Some ?e"
    by (simp add: devtable_at_def)
  have h3: "0 <s opencount ?e"
    by (simp add: word_sless_alt)
  have h4: "opencount ?d = 0"
    by simp
  have u: "loaded\<lparr>devtable := (devtable loaded)[0 := Some (?d\<lparr>opencount := 1\<rparr>)]\<rparr> = ?t"
       "loaded\<lparr>devtable := (devtable loaded)[0 := Some (?d\<lparr>opencount := 0\<rparr>)]\<rparr> = loaded"
    by (simp_all add: loaded_def static_init_def)
  from C6_exclusive_open [OF h1, of "fresh_file 0" "fresh_file 0"]
       C6_exclusive_open [OF h2, of "fresh_file 0"]
  show ?thesis
    unfolding u using h1 h2 h3 h4 by (simp add: fresh_file_def)
qed

section \<open>The vsync endpoint\<close>

lemma poll_mask: "fst (gpio_ts_poll filp s) = (if have_data s then POLLPRI OR POLLIN else 0)"
  by (simp add: gpio_ts_poll_def)

lemma woken_is_lp:
  "fst (snd (gpio_ts_handler inp dev s)) = Some w \<Longrightarrow> w = dev \<and> is_lp_line s dev"
  by (auto simp: gpio_ts_handler_def lp_irq_def is_lp_line_def Let_def
           split: option.splits prod.splits if_splits)

lemma lp_not_vsync: "is_lp_line s dev \<Longrightarrow> \<not> is_vsync_line s dev"
  by (auto simp: is_lp_line_def is_vsync_line_def split: option.splits)

lemma read_woken_not_ready:
  "\<not> have_data s \<Longrightarrow> gpio_ts_read_woken wq uncopied s = (Sleeping wq, s)"
  by (simp add: gpio_ts_read_woken_def)

lemma read_woken_ready:
  "have_data s \<Longrightarrow> gpio_ts_read_woken wq uncopied s = gpio_ts_read_copy uncopied s"
  by (simp add: gpio_ts_read_woken_def)

text \<open>
  Claim C7, as stated, fails: a file opened on the vsync device (minor number 1) polls
  ready after a qualifying light pen edge, and a blocking read on it returns the light
  pen sample.
\<close>

theorem C7_counterexample:
  "gpio_ts_open 1 (fresh_file 0) loaded =
     Some (0, \<lparr>f_flags = 0, private_data = Some 1\<rparr>,
           loaded\<lparr>devtable := [Some \<lparr>opencount = 0, num = 0\<rparr>, Some \<lparr>opencount = 1, num = 1\<rparr>]\<rparr>) \<and>
   gpio_ts_poll \<lparr>f_flags = 0, private_data = Some 1\<rparr>
     (run_irqs [(edge 1000 1 1, 0)]
        (loaded\<lparr>devtable := [Some \<lparr>opencount = 0, num = 0\<rparr>, Some \<lparr>opencount = 1, num = 1\<rparr>]\<rparr>))
     = (3, None) \<and>
   fst (gpio_ts_read \<lparr>f_flags = 0, private_data = Some 1\<rparr> 0
     (run_irqs [(edge 1000 1 1, 0)]
        (loaded\<lparr>devtable := [Some \<lparr>opencount = 0, num = 0\<rparr>, Some \<lparr>opencount = 1, num = 1\<rparr>]\<rparr>)))
     = Returned 8 (''40,15,1'' @ [CHR 0x0A])"
  by (simp add: handler_defs example_defs Let_def gpio_ts_open_def fresh_file_def
        gpio_ts_poll_def POLLPRI_def POLLIN_def gpio_ts_read_def gpio_ts_read_copy_def
        sprintf_message_def fmt_i_def dec_digits.simps word_sless_alt)

text \<open>
  Claim C7, amended: \<open>have_data\<close> and the sample are shared by the two endpoints.
  Poll reports ready exactly when a sample is pending, whichever device the file was
  opened on, and a read then returns that sample. What holds for the vsync endpoint
  is this: a vsync edge produces no sample and wakes no wait queue, the handler wakes
  only the wait queue of the light pen device, and a sleeping reader that is woken
  while \<open>have_data\<close> is not set sleeps on.
\<close>

theorem C7_shared_readiness:
  "fst (gpio_ts_poll filp s) = (if have_data s then POLLPRI OR POLLIN else 0) \<and>
   (have_data s \<longrightarrow>
      gpio_ts_read filp 0 s =
        (Returned (of_nat (length (sprintf_message (xpos s) (ypos s) (lp_button s))))
                  (sprintf_message (xpos s) (ypos s) (lp_button s)),
         s\<lparr>message := sprintf_message (xpos s) (ypos s) (lp_button s), have_data := False\<rparr>)) \<and>
   (is_vsync_line s dev \<longrightarrow> discarded inp dev s) \<and>
   (fst (snd (gpio_ts_handler inp dev s)) = Some w \<longrightarrow>
      w = dev \<and> is_lp_line s w \<and> \<not> is_vsync_line s w) \<and>
   (\<not> have_data s \<longrightarrow> gpio_ts_read_woken wq uncopied s = (Sleeping wq, s))"
proof (intro conjI impI)
  show "fst (gpio_ts_poll filp s) = (if have_data s then POLLPRI OR POLLIN else 0)"
    by (rule poll_mask)
next
  assume "have_data s"
  then show "gpio_ts_read filp 0 s =
        (Returned (of_nat (length (sprintf_message (xpos s) (ypos s) (lp_button s))))
                  (sprintf_message (xpos s) (ypos s) (lp_button s)),
         s\<lparr>message := sprintf_message (xpos s) (ypos s) (lp_button s), have_data := False\<rparr>)"
    by (simp add: read_ready read_copy_ok)
next
  assume "is_vsync_line s dev"
  then have "\<not> is_lp_line s dev"
    using lp_not_vsync by blast
  then show "discarded inp dev s"
    by (rule vsync_is_discarded)
next
  assume w: "fst (snd (gpio_ts_handler inp dev s)) = Some w"
  then show "w = dev" and "is_lp_line s w"
    using woken_is_lp [of inp dev s w] by simp_all
  then show "\<not> is_vsync_line s w"
    by (simp add: lp_not_vsync)
next
  assume "\<not> have_data s"
  then show "gpio_ts_read_woken wq uncopied s = (Sleeping wq, s)"
    by (rule read_woken_not_ready)
qed

text \<open>
  The amended claim C7 after loading: a file on the vsync device polls ready after a
  light pen edge; a vsync edge is discarded; the light pen edge wakes wait queue 0.
\<close>

theorem C7_shared_readiness_witness:
  "have_data (run_irqs [(edge 1000 1 1, 0)] loaded) \<and>
   fst (gpio_ts_poll \<lparr>f_flags = 0, private_data = Some 1\<rparr> (run_irqs [(edge 1000 1 1, 0)] loaded)) = 3 \<and>
   is_vsync_line loaded 1 \<and> discarded (edge 2000 1 1) 1 loaded \<and>
   fst (snd (gpio_ts_handler (edge 1000 1 1) 0 loaded)) = Some 0 \<and>
   is_lp_line loaded 0 \<and> \<not> is_vsync_line loaded 0 \<and>
   \<not> have_data loaded \<and>
   gpio_ts_read_woken (Some 1) 0 loaded = (Sleeping (Some 1), loaded)"
proof -
  let ?s = "run_irqs [(edge 1000 1 1, 0)] loaded"
  have h1: "have_data ?s"
    by (simp add: handler_defs example_defs Let_def)
  have h2: "is_vsync_line loaded 1"
    by (simp add: example_defs devtable_at_def)
  have h3: "fst (snd (gpio_ts_handler (edge 1000 1 1) 0 loaded)) = Some 0"
    by (simp add: handler_defs example_defs Let_def)
  have h4: "\<not> have_data loaded"
    by (simp add: example_defs)
  from C7_shared_readiness [of "\<lparr>f_flags = 0, private_data = Some 1\<rparr>" ?s]
       C7_shared_readiness [of _ loaded 1 "edge 2000 1 1" 0 "Some 1" 0]
       C7_shared_readiness [of _ loaded 0 "edge 1000 1 1" 0]
  show ?thesis
    using h1 h2 h3 h4 by (simp add: POLLPRI_def POLLIN_def)
qed

section \<open>Closing a session\<close>

lemma release_keeps_sample:
  assumes "gpio_ts_release i filp s = Some (ret, filp', s')"
  shows "ret = 0 \<and> have_data s' = have_data s \<and> xpos s' = xpos s \<and> ypos s' = ypos s \<and>
         lp_button s' = lp_button s \<and> module_unload s' = module_unload s"
  using assms by (auto simp: gpio_ts_release_def Let_def split: option.splits)

text \<open>
  Claim C8, as stated, fails: a blocking read on the open light pen device sleeps;
  \<open>gpio_ts_release\<close> of that session returns 0 and sets the open count to 0; a reader
  woken on the wait queue after that finds \<open>have_data\<close> unset and sleeps on.
\<close>

theorem C8_counterexample:
  "gpio_ts_read \<lparr>f_flags = 0, private_data = Some 0\<rparr> 0
     (loaded\<lparr>devtable := [Some \<lparr>opencount = 1, num = 0\<rparr>, Some \<lparr>opencount = 0, num = 1\<rparr>]\<rparr>)
     = (Sleeping (Some 0),
        loaded\<lparr>devtable := [Some \<lparr>opencount = 1, num = 0\<rparr>, Some \<lparr>opencount = 0, num = 1\<rparr>]\<rparr>) \<and>
   gpio_ts_release 0 \<lparr>f_flags = 0, private_data = Some 0\<rparr>
     (loaded\<lparr>devtable := [Some \<lparr>opencount = 1, num = 0\<rparr>, Some \<lparr>opencount = 0, num = 1\<rparr>]\<rparr>)
     = Some (0, \<lparr>f_flags = 0, private_data = None\<rparr>, loaded) \<and>
   gpio_ts_read_woken (Some 0) 0 loaded = (Sleeping (Some 0), loaded)"
  by (simp add: example_defs gpio_ts_read_def gpio_ts_read_woken_def gpio_ts_release_def
        devtable_at_def O_NONBLOCK_def Let_def)

text \<open>
  Claim C8, amended: \<open>gpio_ts_release\<close> changes the open count and the file's private
  data only. It wakes no reader and leaves \<open>have_data\<close> and the sample as they are, so
  a reader blocked in a read stays blocked across the close of its session, until a
  qualifying light pen edge sets \<open>have_data\<close>. A read has no result for a closed or
  cancelled session: it returns the length of the record, \<open>-EAGAIN\<close> or \<open>-EFAULT\<close>.
\<close>

theorem C8_close_wakes_nobody:
  assumes "gpio_ts_release i filp s = Some (ret, filp', s')"
  shows "ret = 0 \<and> have_data s' = have_data s \<and> xpos s' = xpos s \<and> ypos s' = ypos s \<and>
         lp_button s' = lp_button s \<and>
         (\<not> have_data s \<longrightarrow> gpio_ts_read_woken wq uncopied s' = (Sleeping wq, s')) \<and>
         (gpio_ts_read f u t = (Returned r buf, t') \<or> gpio_ts_read_woken q u t = (Returned r buf, t')
            \<longrightarrow> r = - EAGAIN \<or> r = - EFAULT \<or>
                r = of_nat (length (sprintf_message (xpos t) (ypos t) (lp_button t))))"
proof -
  have k: "ret = 0 \<and> have_data s' = have_data s \<and> xpos s' = xpos s \<and> ypos s' = ypos s \<and>
         lp_button s' = lp_button s \<and> module_unload s' = module_unload s"
    using assms by (rule release_keeps_sample)
  have "r = - EAGAIN \<or> r = - EFAULT \<or>
        r = of_nat (length (sprintf_message (xpos t) (ypos t) (lp_button t)))"
    if "gpio_ts_read f u t = (Returned r buf, t') \<or> gpio_ts_read_woken q u t = (Returned r buf, t')"
  proof -
    from that have "r = - EAGAIN \<or> gpio_ts_read_copy u t = (Returned r buf, t')"
      by (auto simp: gpio_ts_read_def gpio_ts_read_woken_def split: if_splits)
    then show ?thesis
      using read_copy_cases [of u t "Returned r buf" t'] by auto
  qed
  with k show ?thesis
    by (auto simp: read_woken_not_ready)
qed

text \<open>
  The amended claim C8 at the close of the light pen session with no sample pending.
\<close>

theorem C8_close_wakes_nobody_witness:
  "gpio_ts_release 0 \<lparr>f_flags = 0, private_data = Some 0\<rparr>
     (loaded\<lparr>devtable := [Some \<lparr>opencount = 1, num = 0\<rparr>, Some \<lparr>opencount = 0, num = 1\<rparr>]\<rparr>)
     = Some (0, \<lparr>f_flags = 0, private_data = None\<rparr>, loaded) \<and>
   \<not> have_data (loaded\<lparr>devtable := [Some \<lparr>opencount = 1, num = 0\<rparr>, Some \<lparr>opencount = 0, num = 1\<rparr>]\<rparr>) \<and>
   gpio_ts_read_woken (Some 0) 0 loaded = (Sleeping (Some 0), loaded) \<and>
   gpio_ts_read (fresh_file O_NONBLOCK) 0 loaded = (Returned (- EAGAIN) [], loaded) \<and>
   (- EAGAIN :: ssize_t) = - 11"
proof -
  let ?t = "loaded\<lparr>devtable := [Some \<lparr>opencount = 1, num = 0\<rparr>, Some \<lparr>opencount = 0, num = 1\<rparr>]\<rparr>"
  have h1: "gpio_ts_release 0 \<lparr>f_flags = 0, private_data = Some 0\<rparr> ?t
     = Some (0, \<lparr>f_flags = 0, private_data = None\<rparr>, loaded)"
    by (simp add: example_defs gpio_ts_release_def devtable_at_def Let_def)
  have h2: "\<not> have_data ?t"
    by (simp add: example_defs)
  have h3: "gpio_ts_read (fresh_file O_NONBLOCK) 0 loaded = (Returned (- EAGAIN) [], loaded)"
    by (simp add: example_defs gpio_ts_read_def fresh_file_def O_NONBLOCK_def)
  then have h4: "gpio_ts_read (fresh_file O_NONBLOCK) 0 loaded = (Returned (- EAGAIN) [], loaded)
      \<or> gpio_ts_read_woken None 0 loaded = (Returned (- EAGAIN) [], loaded)"
    by (rule disjI1)
  from C8_close_wakes_nobody [OF h1, of "Some 0" 0 "fresh_file O_NONBLOCK" 0 loaded "- EAGAIN" "[]" loaded None]
  show ?thesis
    using h1 h2 h3 h4 by (simp add: EAGAIN_def)
qed

section \<open>The sanity checks of the initialisation\<close>

lemma init_rejects_invalid_button:
  "\<not> gpio_is_valid k (gpio_lp_button p) \<Longrightarrow>
   fst (gpio_ts_init k p s) = - EINVAL \<and> gpio_ts_nb_gpios p \<noteq> 2 \<or>
   fst (gpio_ts_init k p s) = - ENODEV"
  by (simp add: gpio_ts_init_def Let_def)

lemma init_rejects_invalid_pins:
  "gpio_ts_nb_gpios p = 2 \<Longrightarrow> length (gpio_ts_table p) = 2 \<Longrightarrow>
   \<not> gpio_is_valid k (gpio_ts_table p ! 0) \<or> \<not> gpio_is_valid k (gpio_ts_table p ! 1) \<Longrightarrow>
   gpio_ts_init k p s =
     (- ENODEV, [], s\<lparr>have_data := False, devtable := replicate GPIO_TS_NB_ENTRIES_MAX None\<rparr>)"
  by (auto simp: gpio_ts_init_def Let_def upt_rec [of 0] upt_rec [of 1] upt_rec [of "Suc 0"])

text \<open>
  Claim C9 against the code: the fourth sanity check prints the message for the odd/even
  pin but tests \<open>gpio_lp_button\<close> a second time, so \<open>gpio_ts_init\<close> never looks at
  \<open>gpio_odd_even\<close>. With the invalid pin number -1 for the odd/even line and valid pins
  17, 27 and 22 for the others, it returns 0 and registers both interrupt handlers.
\<close>

theorem C9_odd_even_pin_unchecked:
  "gpio_ts_init k (p\<lparr>gpio_odd_even := g\<rparr>) s = gpio_ts_init k p s \<and>
   \<not> gpio_is_valid good_kernel (- 1) \<and>
   gpio_ts_init good_kernel
       \<lparr>gpio_ts_table = [17, 27], gpio_ts_nb_gpios = 2, gpio_lp_button = 22, gpio_odd_even = - 1\<rparr>
       static_init =
     (0, [(177, 0), (187, 1)], loaded\<lparr>irq_numbers := [177, 187]\<rparr>)"
proof (intro conjI)
  show "gpio_ts_init k (p\<lparr>gpio_odd_even := g\<rparr>) s = gpio_ts_init k p s"
    by (simp add: gpio_ts_init_def Let_def split: prod.splits option.splits cong: if_cong)
  show "\<not> gpio_is_valid good_kernel (- 1)"
    by (simp add: good_kernel_def gpio_is_valid_512_def word_sle_eq)
  show "gpio_ts_init good_kernel
       \<lparr>gpio_ts_table = [17, 27], gpio_ts_nb_gpios = 2, gpio_lp_button = 22, gpio_odd_even = - 1\<rparr>
       static_init =
     (0, [(177, 0), (187, 1)], loaded\<lparr>irq_numbers := [177, 187]\<rparr>)"
    by (simp add: gpio_ts_init_def good_kernel_def gpio_is_valid_512_def never_def pin_irq_def
          no_error_def loaded_def static_init_def GPIO_TS_NB_ENTRIES_MAX_def Let_def
          word_sle_eq word_sless_alt upt_rec [of 0] upt_rec [of 1] upt_rec [of "Suc 0"]
          numeral_2_eq_2)
qed

section \<open>A failed copy to the caller\<close>

text \<open>
  Claim C10: when \<open>copy_to_user\<close> leaves bytes uncopied, the read (at once or after
  sleeping) returns \<open>-EFAULT\<close>; \<open>have_data\<close> stays set and the sample is unchanged,
  only \<open>message\<close> holds the formatted record. The next read whose copy succeeds
  returns that record and clears \<open>have_data\<close>.
\<close>

theorem C10_fault_keeps_sample:
  assumes "have_data s" and "uncopied \<noteq> 0"
    and "rec = sprintf_message (xpos s) (ypos s) (lp_button s)"
  shows "gpio_ts_read filp uncopied s =
           (Returned (- EFAULT) (take (length rec - uncopied) rec), s\<lparr>message := rec\<rparr>) \<and>
         gpio_ts_read_woken wq uncopied s =
           (Returned (- EFAULT) (take (length rec - uncopied) rec), s\<lparr>message := rec\<rparr>) \<and>
         have_data (s\<lparr>message := rec\<rparr>) \<and>
         xpos (s\<lparr>message := rec\<rparr>) = xpos s \<and> ypos (s\<lparr>message := rec\<rparr>) = ypos s \<and>
         lp_button (s\<lparr>message := rec\<rparr>) = lp_button s \<and>
         gpio_ts_read again 0 (s\<lparr>message := rec\<rparr>) =
           (Returned (of_nat (length rec)) rec, s\<lparr>message := rec, have_data := False\<rparr>)"
  using assms by (simp add: read_ready read_woken_ready read_copy_fault read_copy_ok)

text \<open>
  Claim C10 at the sample of the light pen edge at 1000 microseconds, with none of the
  8 bytes copied the first time.
\<close>

theorem C10_fault_keeps_sample_witness:
  "have_data (run_irqs [(edge 0 0 0, 1), (edge 1000 1 1, 0)] loaded) \<and> (8 :: nat) \<noteq> 0 \<and>
   sprintf_message (xpos (run_irqs [(edge 0 0 0, 1), (edge 1000 1 1, 0)] loaded))
                   (ypos (run_irqs [(edge 0 0 0, 1), (edge 1000 1 1, 0)] loaded))
                   (lp_button (run_irqs [(edge 0 0 0, 1), (edge 1000 1 1, 0)] loaded))
     = ''40,15,1'' @ [CHR 0x0A] \<and>
   gpio_ts_read (fresh_file 0) 8 (run_irqs [(edge 0 0 0, 1), (edge 1000 1 1, 0)] loaded) =
     (Returned (- EFAULT) [],
      (run_irqs [(edge 0 0 0, 1), (edge 1000 1 1, 0)] loaded)\<lparr>message := ''40,15,1'' @ [CHR 0x0A]\<rparr>) \<and>
   gpio_ts_read (fresh_file 0) 0
      ((run_irqs [(edge 0 0 0, 1), (edge 1000 1 1, 0)] loaded)\<lparr>message := ''40,15,1'' @ [CHR 0x0A]\<rparr>) =
     (Returned 8 (''40,15,1'' @ [CHR 0x0A]),
      (run_irqs [(edge 0 0 0, 1), (edge 1000 1 1, 0)] loaded)
        \<lparr>message := ''40,15,1'' @ [CHR 0x0A], have_data := False\<rparr>)"
proof -
  let ?s = "run_irqs [(edge 0 0 0, 1), (edge 1000 1 1, 0)] loaded"
  have h1: "have_data ?s"
    by (simp add: handler_defs example_defs Let_def)
  have h2: "(8 :: nat) \<noteq> 0"
    by simp
  have h3: "''40,15,1'' @ [CHR 0x0A] = sprintf_message (xpos ?s) (ypos ?s) (lp_button ?s)"
    by (simp add: handler_defs example_defs Let_def sprintf_message_def fmt_i_def dec_digits.simps)
  from C10_fault_keeps_sample [OF h1 h2 h3, of "fresh_file 0" None "fresh_file 0"]
  show ?thesis
    using h1 h3 by simp
qed

end
